theory Spec2Isabelle
  imports Complex_Main
begin

section \<open>JavaScript numbers\<close>

text \<open>
  The simulator computes with JavaScript \<open>number\<close>s. They are modelled as the reals
  extended by the three special values of IEEE 754, with the special-value rules of
  the ECMAScript arithmetic operators written out. A finite result whose magnitude
  reaches \<open>2 ^ 1024 - 2 ^ 970\<close> overflows to an infinity, as rounding to
  nearest does for a double. Below that limit a result is kept as it is: rounding to 53
  significant bits and underflow are not modelled, and the two zeros are not
  distinguished (a zero divisor counts as \<open>+0\<close>).
\<close>

datatype jsnum = Num real | PosInf | NegInf | NaN

definition double_limit :: real where
  "double_limit = 2 ^ 1024 - 2 ^ 970"

text \<open>The number for a finite result \<open>r\<close> of an operation.\<close>

definition fin :: "real \<Rightarrow> jsnum" where
  "fin r = (if double_limit \<le> r then PosInf else if r \<le> - double_limit then NegInf else Num r)"

fun is_finite :: "jsnum \<Rightarrow> bool" where
  "is_finite (Num r) = True"
| "is_finite PosInf = False"
| "is_finite NegInf = False"
| "is_finite NaN = False"

instantiation jsnum :: "{plus, minus, uminus, times, inverse}"
begin

fun uminus_jsnum :: "jsnum \<Rightarrow> jsnum" where
  "uminus_jsnum (Num a) = Num (- a)"
| "uminus_jsnum PosInf = NegInf"
| "uminus_jsnum NegInf = PosInf"
| "uminus_jsnum NaN = NaN"

fun plus_jsnum :: "jsnum \<Rightarrow> jsnum \<Rightarrow> jsnum" where
  "plus_jsnum NaN b = NaN"
| "plus_jsnum a NaN = NaN"
| "plus_jsnum (Num a) (Num b) = fin (a + b)"
| "plus_jsnum PosInf NegInf = NaN"
| "plus_jsnum NegInf PosInf = NaN"
| "plus_jsnum PosInf b = PosInf"
| "plus_jsnum NegInf b = NegInf"
| "plus_jsnum (Num a) b = b"

definition minus_jsnum :: "jsnum \<Rightarrow> jsnum \<Rightarrow> jsnum" where
  "minus_jsnum a b = a + (- b)"

fun times_jsnum :: "jsnum \<Rightarrow> jsnum \<Rightarrow> jsnum" where
  "times_jsnum NaN b = NaN"
| "times_jsnum a NaN = NaN"
| "times_jsnum (Num a) (Num b) = fin (a * b)"
| "times_jsnum (Num a) PosInf = (if a = 0 then NaN else if 0 < a then PosInf else NegInf)"
| "times_jsnum (Num a) NegInf = (if a = 0 then NaN else if 0 < a then NegInf else PosInf)"
| "times_jsnum PosInf (Num b) = (if b = 0 then NaN else if 0 < b then PosInf else NegInf)"
| "times_jsnum NegInf (Num b) = (if b = 0 then NaN else if 0 < b then NegInf else PosInf)"
| "times_jsnum PosInf PosInf = PosInf"
| "times_jsnum PosInf NegInf = NegInf"
| "times_jsnum NegInf PosInf = NegInf"
| "times_jsnum NegInf NegInf = PosInf"

fun divide_jsnum :: "jsnum \<Rightarrow> jsnum \<Rightarrow> jsnum" where
  "divide_jsnum NaN b = NaN"
| "divide_jsnum a NaN = NaN"
| "divide_jsnum (Num a) (Num b) =
     (if b = 0 then (if a = 0 then NaN else if 0 < a then PosInf else NegInf)
      else fin (a / b))"
| "divide_jsnum (Num a) b = Num 0"
| "divide_jsnum PosInf (Num b) = (if 0 \<le> b then PosInf else NegInf)"
| "divide_jsnum NegInf (Num b) = (if 0 \<le> b then NegInf else PosInf)"
| "divide_jsnum a b = NaN"

definition inverse_jsnum :: "jsnum \<Rightarrow> jsnum" where
  "inverse_jsnum a = divide (Num 1) a"

instance ..

end

text \<open>\<open>Math.sin\<close>, \<open>Math.cos\<close>, \<open>Math.sqrt\<close>, \<open>Math.pow\<close> (for an exponent that is a
  natural number) and \<open>Math.PI\<close>.\<close>

fun Math_sin :: "jsnum \<Rightarrow> jsnum" where
  "Math_sin (Num a) = Num (sin a)"
| "Math_sin a = NaN"

fun Math_cos :: "jsnum \<Rightarrow> jsnum" where
  "Math_cos (Num a) = Num (cos a)"
| "Math_cos a = NaN"



definition Math_PI :: jsnum where
  "Math_PI = Num pi"

section \<open>The state model (types/simulation)\<close>

text \<open>A trail point \<open>{ x, y }\<close>; the fields carry a prefix, \<open>x\<close> and \<open>y\<close> being
  variable names.\<close>

record point =
  pt_x :: jsnum
  pt_y :: jsnum

text \<open>\<open>PendulumState\<close>; the field \<open>length\<close> is \<open>length_field\<close>, the name \<open>length\<close> being
  the length of a list.\<close>

record PendulumState =
  angle :: jsnum
  angularVelocity :: jsnum
  length_field :: jsnum
  mass :: jsnum
  trail :: "point list"

record SimulationControls =
  isRunning :: bool
  gravity :: jsnum
  damping :: jsnum
  showTrail :: bool

section \<open>The integrator (Simulator.tsx, rk4)\<close>

text \<open>The closure \<open>f\<close> of \<open>rk4\<close>, with the variables it captures (the state, gravity and
  damping) as parameters.\<close>

definition rk4_f :: "PendulumState \<Rightarrow> jsnum \<Rightarrow> jsnum \<Rightarrow> jsnum \<Rightarrow> jsnum \<Rightarrow> jsnum \<times> jsnum" where
  "rk4_f s g d theta omega =
     (let dtheta = omega;
          domega = (- g / length_field s) * Math_sin theta - d * omega
      in (dtheta, domega))"

definition rk4 :: "PendulumState \<Rightarrow> jsnum \<Rightarrow> jsnum \<Rightarrow> jsnum \<Rightarrow> jsnum \<times> jsnum" where
  "rk4 s dt g d =
     (let theta = angle s; omega = angularVelocity s;
          (k1t, k1v) = rk4_f s g d theta omega;
          (k2t, k2v) = rk4_f s g d (theta + k1t * dt / Num 2) (omega + k1v * dt / Num 2);
          (k3t, k3v) = rk4_f s g d (theta + k2t * dt / Num 2) (omega + k2v * dt / Num 2);
          (k4t, k4v) = rk4_f s g d (theta + k3t * dt) (omega + k3v * dt);
          newTheta = theta + (dt / Num 6) * (k1t + Num 2 * k2t + Num 2 * k3t + k4t);
          newOmega = omega + (dt / Num 6) * (k1v + Num 2 * k2v + Num 2 * k3v + k4v)
      in (newTheta, newOmega))"

text \<open>\<open>rk4\<close> has no \<open>throw\<close> and calls nothing that throws: a call of it always completes
  normally. The completion of a call is made explicit as a sum, \<open>Inl\<close> for a thrown
  error.\<close>

definition rk4_call :: "PendulumState \<Rightarrow> jsnum \<Rightarrow> jsnum \<Rightarrow> jsnum \<Rightarrow> string + jsnum \<times> jsnum" where
  "rk4_call s dt g d = Inr (rk4 s dt g d)"

section \<open>The simulator component (Simulator.tsx)\<close>

text \<open>The component's state: the two \<open>useState\<close> cells and the two \<open>useRef\<close> cells.\<close>

record Simulator =
  state :: PendulumState
  controls :: SimulationControls
  lastTimeRef :: jsnum
  pausedTimeRef :: jsnum

definition initialState :: PendulumState where
  "initialState =
     \<lparr>angle = Math_PI / Num 4, angularVelocity = Num 0, length_field = Num 2, mass = Num 1,
      trail = []\<rparr>"

definition initialControls :: SimulationControls where
  "initialControls =
     \<lparr>isRunning = True, gravity = Num (981 / 100), damping = Num (1 / 2), showTrail = True\<rparr>"

definition initialSimulator :: Simulator where
  "initialSimulator =
     \<lparr>state = initialState, controls = initialControls, lastTimeRef = Num 0,
      pausedTimeRef = Num 0\<rparr>"

text \<open>\<open>while (newTrail.length > 50) newTrail.shift()\<close>, on the contents of the array.\<close>

function shift_loop :: "point list \<Rightarrow> point list" where
  "shift_loop newTrail = (if length newTrail > 50 then shift_loop (tl newTrail) else newTrail)"
  by pat_completeness auto
termination
  by (relation "measure length") auto

declare shift_loop.simps [simp del]

text \<open>The updater that \<open>handleFrame\<close> passes to \<open>setState\<close>, as a function of the
  controls it captures, the frame's \<open>deltaTime\<close> and the previous state.\<close>

definition handleFrame_updater :: "SimulationControls \<Rightarrow> jsnum \<Rightarrow> PendulumState \<Rightarrow> PendulumState" where
  "handleFrame_updater c deltaTime prev =
     (let dt = deltaTime;
          (newAngle, newVelocity) = rk4 prev dt (gravity c) (damping c / Num 100);
          pivotX = Num 300;
          pivotY = Num 125;
          stringLength = length_field prev * Num 150;
          bobX = pivotX + Math_sin newAngle * stringLength;
          bobY = pivotY + Math_cos newAngle * stringLength;
          newTrail = trail prev;
          newTrail = (if showTrail c then shift_loop (newTrail @ [\<lparr>pt_x = bobX, pt_y = bobY\<rparr>])
                      else newTrail)
      in prev\<lparr>angle := newAngle, angularVelocity := newVelocity, trail := newTrail\<rparr>)"

definition handleFrame :: "jsnum \<Rightarrow> Simulator \<Rightarrow> Simulator" where
  "handleFrame deltaTime sim =
     (if \<not> isRunning (controls sim) then sim\<lparr>pausedTimeRef := deltaTime\<rparr>
      else sim\<lparr>state := handleFrame_updater (controls sim) deltaTime (state sim)\<rparr>)"

text \<open>\<open>toggleSimulation\<close> and \<open>resetSimulation\<close>; \<open>now\<close> is what \<open>performance.now()\<close>
  returns.\<close>

definition toggleSimulation :: "jsnum \<Rightarrow> Simulator \<Rightarrow> Simulator" where
  "toggleSimulation now sim =
     (let newIsRunning = \<not> isRunning (controls sim)
      in sim\<lparr>controls := (controls sim)\<lparr>isRunning := newIsRunning\<rparr>,
             lastTimeRef := (if newIsRunning then now else lastTimeRef sim)\<rparr>)"

definition resetSimulation :: "jsnum \<Rightarrow> Simulator \<Rightarrow> Simulator" where
  "resetSimulation now sim =
     sim\<lparr>state :=
           \<lparr>angle = Math_PI / Num 4, angularVelocity = Num 0, length_field = Num 2,
            mass = Num 1, trail = []\<rparr>,
         controls := (controls sim)\<lparr>isRunning := True\<rparr>,
         lastTimeRef := now\<rparr>"

section \<open>The classical Runge-Kutta step of the specification\<close>

text \<open>
  The specification's words for the integrator, for any vector field \<open>F\<close> on pairs of
  numbers and in the arithmetic of the code: the four stages at \<open>y\<close>, \<open>y + k1 h / 2\<close>,
  \<open>y + k2 h / 2\<close> and \<open>y + k3 h\<close>, and the sum \<open>k1 + 2 k2 + 2 k3 + k4\<close> weighted by
  \<open>h / 6\<close>; and the vector field of the damped pendulum,
  \<open>d\<theta>/dt = \<omega>\<close>, \<open>d\<omega>/dt = -(gravity/length) sin \<theta> - dampingCoefficient \<omega>\<close>.
\<close>

type_synonym jvec = "jsnum \<times> jsnum"

definition jvadd :: "jvec \<Rightarrow> jvec \<Rightarrow> jvec" where
  "jvadd u v = (fst u + fst v, snd u + snd v)"

definition jvscale :: "jsnum \<Rightarrow> jvec \<Rightarrow> jvec" where
  "jvscale a v = (a * fst v, a * snd v)"

definition jvtimes :: "jvec \<Rightarrow> jsnum \<Rightarrow> jvec" where
  "jvtimes v a = (fst v * a, snd v * a)"

definition jvdivide :: "jvec \<Rightarrow> jsnum \<Rightarrow> jvec" where
  "jvdivide v a = (fst v / a, snd v / a)"

definition spec_pendulum_ode :: "jsnum \<Rightarrow> jsnum \<Rightarrow> jsnum \<Rightarrow> jvec \<Rightarrow> jvec" where
  "spec_pendulum_ode g len c y = (snd y, - (g / len) * Math_sin (fst y) - c * snd y)"

definition spec_rk4_step :: "(jvec \<Rightarrow> jvec) \<Rightarrow> jsnum \<Rightarrow> jvec \<Rightarrow> jvec" where
  "spec_rk4_step F h y =
     (let k1 = F y;
          k2 = F (jvadd y (jvdivide (jvtimes k1 h) (Num 2)));
          k3 = F (jvadd y (jvdivide (jvtimes k2 h) (Num 2)));
          k4 = F (jvadd y (jvtimes k3 h))
      in jvadd y (jvscale (h / Num 6)
           (jvadd (jvadd (jvadd k1 (jvscale (Num 2) k2)) (jvscale (Num 2) k3)) k4)))"

text \<open>The same step over the reals, where no result overflows.\<close>

type_synonym vec2 = "real \<times> real"

definition vadd :: "vec2 \<Rightarrow> vec2 \<Rightarrow> vec2" where
  "vadd u v = (fst u + fst v, snd u + snd v)"

definition vscale :: "real \<Rightarrow> vec2 \<Rightarrow> vec2" where
  "vscale a v = (a * fst v, a * snd v)"

definition real_pendulum_ode :: "real \<Rightarrow> real \<Rightarrow> real \<Rightarrow> vec2 \<Rightarrow> vec2" where
  "real_pendulum_ode g len c y = (snd y, - (g / len) * sin (fst y) - c * snd y)"

definition real_rk4_step :: "(vec2 \<Rightarrow> vec2) \<Rightarrow> real \<Rightarrow> vec2 \<Rightarrow> vec2" where
  "real_rk4_step F h y =
     (let k1 = F y;
          k2 = F (vadd y (vscale (h / 2) k1));
          k3 = F (vadd y (vscale (h / 2) k2));
          k4 = F (vadd y (vscale h k3))
      in vadd y (vscale (h / 6)
           (vadd (vadd (vadd k1 (vscale 2 k2)) (vscale 2 k3)) k4)))"

section \<open>Derived quantities (PendulumCanvas.tsx, Simulator.tsx)\<close>











section \<open>Trail points and sequences of frames\<close>

text \<open>The bob's position on the canvas for an angle and a length, as \<open>handleFrame\<close>
  computes it (pivot at \<open>(300, 125)\<close>, 150 pixels per metre).\<close>

definition bobPosition :: "jsnum \<Rightarrow> jsnum \<Rightarrow> point" where
  "bobPosition newAngle len =
     \<lparr>pt_x = Num 300 + Math_sin newAngle * (len * Num 150),
      pt_y = Num 125 + Math_cos newAngle * (len * Num 150)\<rparr>"

text \<open>The last \<open>n\<close> elements of a list (all of it when it is shorter).\<close>

definition last_n :: "nat \<Rightarrow> 'a list \<Rightarrow> 'a list" where
  "last_n n xs = drop (length xs - n) xs"

text \<open>A sequence of frames. Between two frames the user may have changed the controls,
  so each frame comes with the controls in force when it is handled.\<close>

fun run_frames :: "(SimulationControls \<times> jsnum) list \<Rightarrow> Simulator \<Rightarrow> Simulator" where
  "run_frames [] sim = sim"
| "run_frames ((c, deltaTime) # ticks) sim =
     run_frames ticks (handleFrame deltaTime (sim\<lparr>controls := c\<rparr>))"

text \<open>The points the frames of a sequence append, in the order of the frames: one for
  each frame handled while running with the trail shown.\<close>

fun appended_points :: "(SimulationControls \<times> jsnum) list \<Rightarrow> Simulator \<Rightarrow> point list" where
  "appended_points [] sim = []"
| "appended_points ((c, deltaTime) # ticks) sim =
     (if isRunning c \<and> showTrail c
      then [bobPosition (fst (rk4 (state sim) deltaTime (gravity c) (damping c / Num 100)))
              (length_field (state sim))]
      else [])
     @ appended_points ticks (handleFrame deltaTime (sim\<lparr>controls := c\<rparr>))"

section \<open>The updater on an explicit store\<close>

text \<open>
  JavaScript objects and arrays are references into a store. To see what the updater of
  \<open>handleFrame\<close> mutates, it is modelled a second time with the store explicit: a state
  object holds a reference to its trail array, \<open>[...prev.trail]\<close> and the object literal
  allocate, and \<open>push\<close> and \<open>shift\<close> mutate the array they are called on. Trail points
  are never mutated and stay values. A fresh reference is the store's \<open>next_ref\<close>.
\<close>

type_synonym ref = nat

record PendulumObject =
  obj_angle :: jsnum
  obj_angularVelocity :: jsnum
  obj_length :: jsnum
  obj_mass :: jsnum
  obj_trail :: ref

record store =
  objects :: "ref \<rightharpoonup> PendulumObject"
  arrays :: "ref \<rightharpoonup> point list"
  next_ref :: ref

definition array_contents :: "store \<Rightarrow> ref \<Rightarrow> point list" where
  "array_contents h a = (case arrays h a of Some xs \<Rightarrow> xs | None \<Rightarrow> [])"

definition array_length :: "store \<Rightarrow> ref \<Rightarrow> nat" where
  "array_length h a = length (array_contents h a)"

definition array_spread :: "store \<Rightarrow> ref \<Rightarrow> ref \<times> store" where
  "array_spread h a =
     (next_ref h,
      h\<lparr>arrays := (arrays h)(next_ref h \<mapsto> array_contents h a), next_ref := Suc (next_ref h)\<rparr>)"

definition array_push :: "store \<Rightarrow> ref \<Rightarrow> point \<Rightarrow> store" where
  "array_push h a p = h\<lparr>arrays := (arrays h)(a \<mapsto> array_contents h a @ [p])\<rparr>"

definition array_shift :: "store \<Rightarrow> ref \<Rightarrow> store" where
  "array_shift h a = h\<lparr>arrays := (arrays h)(a \<mapsto> tl (array_contents h a))\<rparr>"

definition object_new :: "store \<Rightarrow> PendulumObject \<Rightarrow> ref \<times> store" where
  "object_new h ob =
     (next_ref h, h\<lparr>objects := (objects h)(next_ref h \<mapsto> ob), next_ref := Suc (next_ref h)\<rparr>)"

function shift_loop_store :: "store \<Rightarrow> ref \<Rightarrow> store" where
  "shift_loop_store h newTrail =
     (if array_length h newTrail > 50 then shift_loop_store (array_shift h newTrail) newTrail
      else h)"
  by pat_completeness auto
termination
  by (relation "measure (\<lambda>(h, a). array_length h a)")
     (auto simp: array_length_def array_shift_def array_contents_def)

declare shift_loop_store.simps [simp del]

definition state_view :: "store \<Rightarrow> PendulumObject \<Rightarrow> PendulumState" where
  "state_view h ob =
     \<lparr>angle = obj_angle ob, angularVelocity = obj_angularVelocity ob, length_field = obj_length ob,
      mass = obj_mass ob, trail = array_contents h (obj_trail ob)\<rparr>"

definition handleFrame_updater_store ::
  "SimulationControls \<Rightarrow> jsnum \<Rightarrow> store \<Rightarrow> ref \<Rightarrow> (ref \<times> store) option" where
  "handleFrame_updater_store c deltaTime h prev =
     (case objects h prev of
        None \<Rightarrow> None
      | Some ob \<Rightarrow>
          (let dt = deltaTime;
               (newAngle, newVelocity) =
                  rk4 (state_view h ob) dt (gravity c) (damping c / Num 100);
               pivotX = Num 300;
               pivotY = Num 125;
               stringLength = obj_length ob * Num 150;
               bobX = pivotX + Math_sin newAngle * stringLength;
               bobY = pivotY + Math_cos newAngle * stringLength;
               (newTrail, h1) = array_spread h (obj_trail ob);
               h2 = (if showTrail c
                     then shift_loop_store (array_push h1 newTrail \<lparr>pt_x = bobX, pt_y = bobY\<rparr>)
                            newTrail
                     else h1)
           in Some (object_new h2
                (ob\<lparr>obj_angle := newAngle, obj_angularVelocity := newVelocity,
                    obj_trail := newTrail\<rparr>))))"

text \<open>A store with the initial state object at reference 0 and its empty trail array at
  reference 1.\<close>

definition initialObject :: PendulumObject where
  "initialObject =
     \<lparr>obj_angle = Math_PI / Num 4, obj_angularVelocity = Num 0, obj_length = Num 2,
      obj_mass = Num 1, obj_trail = 1\<rparr>"

definition initialStore :: store where
  "initialStore =
     \<lparr>objects = Map.empty(0 \<mapsto> initialObject), arrays = Map.empty(1 \<mapsto> []), next_ref = 2\<rparr>"

section \<open>Example states\<close>

text \<open>A pendulum turning freely at one radian per second (gravity and damping are 0 in
  \<open>freeControls\<close>), with a trail of 50 points; and the same controls with the trail
  switched off.\<close>

definition fiftyPoints :: "point list" where
  "fiftyPoints = map (\<lambda>i. \<lparr>pt_x = Num (real i), pt_y = Num 0\<rparr>) [0..<50]"

definition turningState :: "point list \<Rightarrow> PendulumState" where
  "turningState tr =
     \<lparr>angle = Num 0, angularVelocity = Num 1, length_field = Num 2, mass = Num 1, trail = tr\<rparr>"

definition freeControls :: "bool \<Rightarrow> SimulationControls" where
  "freeControls sh = \<lparr>isRunning = True, gravity = Num 0, damping = Num 0, showTrail = sh\<rparr>"

definition turningSimulator :: "point list \<Rightarrow> bool \<Rightarrow> Simulator" where
  "turningSimulator tr sh =
     \<lparr>state = turningState tr, controls = freeControls sh, lastTimeRef = Num 0,
      pausedTimeRef = Num 0\<rparr>"


section \<open>Auxiliary facts\<close>

lemma shift_loop_last_n: "shift_loop xs = last_n 50 xs"
proof (induction xs rule: shift_loop.induct)
  case (1 newTrail)
  show ?case
  proof (cases "length newTrail > 50")
    case True
    then have "shift_loop newTrail = shift_loop (tl newTrail)"
      by (subst shift_loop.simps) simp
    also have "\<dots> = last_n 50 (tl newTrail)" using "1" True by simp
    also have "\<dots> = last_n 50 newTrail"
      using True by (cases newTrail) (auto simp: last_n_def drop_Cons')
    finally show ?thesis .
  next
    case False
    then show ?thesis by (subst shift_loop.simps) (simp add: last_n_def)
  qed
qed

lemma last_n_length: "length (last_n n xs) \<le> n"
  by (simp add: last_n_def)

lemma last_n_id: "length xs \<le> n \<Longrightarrow> last_n n xs = xs"
  by (simp add: last_n_def)

lemma last_n_append: "last_n n (last_n n xs @ ys) = last_n n (xs @ ys)"
  by (cases "n \<le> length xs") (simp_all add: last_n_def add.commute)

lemma updater_fields:
  "handleFrame_updater c deltaTime prev =
     prev\<lparr>angle := fst (rk4 prev deltaTime (gravity c) (damping c / Num 100)),
          angularVelocity := snd (rk4 prev deltaTime (gravity c) (damping c / Num 100)),
          trail := (if showTrail c
                    then last_n 50 (trail prev @
                      [bobPosition (fst (rk4 prev deltaTime (gravity c) (damping c / Num 100)))
                         (length_field prev)])
                    else trail prev)\<rparr>"
  unfolding handleFrame_updater_def Let_def split_def shift_loop_last_n bobPosition_def
  by (rule refl)

lemma double_limit_gt: "1000000 < double_limit"
  by (simp add: double_limit_def)

lemma fin_small: "- 1000000 \<le> r \<Longrightarrow> r \<le> 1000000 \<Longrightarrow> fin r = Num r"
  using double_limit_gt by (simp add: fin_def)

lemma fin_uminus: "fin (- r) = - fin r"
  using double_limit_gt by (auto simp: fin_def)

lemma uminus_divide_jsnum: "- (a / b) = (- a) / (b :: jsnum)"
  by (cases a; cases b) (auto simp: fin_uminus)

lemma fin_pi_quarter: "fin (pi / 4) = Num (pi / 4)"
  using pi_gt_zero pi_less_4 by (intro fin_small) argo+

lemma Math_PI_quarter: "Math_PI / Num 4 = Num (pi / 4)"
  by (simp add: Math_PI_def fin_pi_quarter)



text \<open>The arithmetic of the example of the specification: no result is near the limit.\<close>

lemma example_field_arith:
  assumes "- 1 \<le> v" "v \<le> 1" "- 1000 \<le> w" "w \<le> 1000"
  shows "(- Num (981 / 100) / Num 2) * Num v - Num 0 * Num w = Num (- (981 / 200) * v)"
  using assms by (simp add: minus_jsnum_def fin_small)

lemma example_field:
  assumes "length_field s = Num 2" "- 1000 \<le> w" "w \<le> 1000"
  shows "rk4_f s (Num (981 / 100)) (Num 0) (Num x) (Num w)
         = (Num w, Num (- (981 / 200) * sin x))"
  unfolding rk4_f_def Let_def assms(1) Math_sin.simps
  using example_field_arith [OF sin_ge_minus_one sin_le_one assms(2,3), of x] by simp

lemma example_half_step:
  assumes "- 1000 \<le> y" "y \<le> 1000" "- 1000 \<le> k" "k \<le> 1000"
  shows "Num y + Num k * Num (1 / 100) / Num 2 = Num (y + k * (1 / 100) / 2)"
  using assms by (simp add: fin_small)

lemma example_full_step:
  assumes "- 1000 \<le> y" "y \<le> 1000" "- 1000 \<le> k" "k \<le> 1000"
  shows "Num y + Num k * Num (1 / 100) = Num (y + k * (1 / 100))"
  using assms by (simp add: fin_small)

lemma example_combine:
  assumes "- 1000 \<le> y" "y \<le> 1000" "- 1000 \<le> k1" "k1 \<le> 1000" "- 1000 \<le> k2" "k2 \<le> 1000"
    "- 1000 \<le> k3" "k3 \<le> 1000" "- 1000 \<le> k4" "k4 \<le> 1000"
  shows "Num y + (Num (1 / 100) / Num 6) * (Num k1 + Num 2 * Num k2 + Num 2 * Num k3 + Num k4)
         = Num (y + (1 / 100) / 6 * (k1 + 2 * k2 + 2 * k3 + k4))"
proof -
  have "fin (y + (k1 + 2 * k2 + 2 * k3 + k4) / 600) = Num (y + (k1 + 2 * k2 + 2 * k3 + k4) / 600)"
    using assms by (intro fin_small) argo+
  then show ?thesis using assms by (simp add: fin_small)
qed

lemma example_rk4:
  assumes s: "angle s = Num (pi / 4)" "angularVelocity s = Num 0" "length_field s = Num 2"
  shows "\<exists>a w. rk4 s (Num (1 / 100)) (Num (981 / 100)) (Num 0) = (Num a, Num w) \<and>
           a < pi / 4 \<and> w < 0"
proof -
  define k1v where "k1v = - (981 / 200) * sin (pi / 4)"
  define x2 where "x2 = pi / 4 + 0 * (1 / 100) / 2"
  define w2 where "w2 = 0 + k1v * (1 / 100) / 2"
  define k2v where "k2v = - (981 / 200) * sin x2"
  define x3 where "x3 = pi / 4 + w2 * (1 / 100) / 2"
  define w3 where "w3 = 0 + k2v * (1 / 100) / 2"
  define k3v where "k3v = - (981 / 200) * sin x3"
  define x4 where "x4 = pi / 4 + w3 * (1 / 100)"
  define w4 where "w4 = 0 + k3v * (1 / 100)"
  define k4v where "k4v = - (981 / 200) * sin x4"
  define a where "a = pi / 4 + (1 / 100) / 6 * (0 + 2 * w2 + 2 * w3 + w4)"
  define w where "w = 0 + (1 / 100) / 6 * (k1v + 2 * k2v + 2 * k3v + k4v)"
  have pi_b: "2 \<le> pi" "pi \<le> 4" using pi_ge_two pi_less_4 by simp_all
  have sb: "- 5 \<le> - (981 / 200) * sin x \<and> - (981 / 200) * sin x \<le> 5" for x :: real
    using sin_le_one [of x] sin_ge_minus_one [of x] by linarith
  have kb: "- 5 \<le> k1v" "k1v \<le> 5" "- 5 \<le> k2v" "k2v \<le> 5" "- 5 \<le> k3v" "k3v \<le> 5"
    "- 5 \<le> k4v" "k4v \<le> 5"
    using sb by (simp_all add: k1v_def k2v_def k3v_def k4v_def)
  have wb: "- 1 \<le> w2" "w2 \<le> 1" "- 1 \<le> w3" "w3 \<le> 1" "- 1 \<le> w4" "w4 \<le> 1"
    using kb by (simp_all add: w2_def w3_def w4_def)
  have x2: "x2 = pi / 4" by (simp add: x2_def)
  have s1: "0 < sin (pi / 4)" using pi_b by (intro sin_gt_zero) simp_all
  have s2: "0 < sin x2" using s1 by (simp add: x2)
  have k1n: "k1v < 0" using s1 by (simp add: k1v_def)
  have k2n: "k2v < 0" using s2 by (simp add: k2v_def)
  have w2n: "w2 < 0" using k1n by (simp add: w2_def)
  have w3n: "w3 < 0" using k2n by (simp add: w3_def)
  have s3: "0 < sin x3"
    using pi_b wb w2n unfolding x3_def by (intro sin_gt_zero) argo+
  have k3n: "k3v < 0" using s3 by (simp add: k3v_def)
  have s4: "0 < sin x4"
    using pi_b wb w3n unfolding x4_def by (intro sin_gt_zero) argo+
  have k4n: "k4v < 0" using s4 by (simp add: k4v_def)
  have w4n: "w4 < 0" using k3n by (simp add: w4_def)
  have a_lt: "a < pi / 4" using w2n w3n w4n unfolding a_def by argo
  have w_lt: "w < 0" using k1n k2n k3n k4n unfolding w_def by argo
  note len = s(3)
  have e1: "rk4_f s (Num (981 / 100)) (Num 0) (Num (pi / 4)) (Num 0) = (Num 0, Num k1v)"
    unfolding k1v_def by (rule example_field [OF len]) simp_all
  have p2: "Num (pi / 4) + Num 0 * Num (1 / 100) / Num 2 = Num x2"
    "Num 0 + Num k1v * Num (1 / 100) / Num 2 = Num w2"
    unfolding x2_def w2_def using pi_b kb by (intro example_half_step; argo)+
  have e2: "rk4_f s (Num (981 / 100)) (Num 0) (Num x2) (Num w2) = (Num w2, Num k2v)"
    unfolding k2v_def using wb by (intro example_field [OF len]) argo+
  have p3: "Num (pi / 4) + Num w2 * Num (1 / 100) / Num 2 = Num x3"
    "Num 0 + Num k2v * Num (1 / 100) / Num 2 = Num w3"
    unfolding x3_def w3_def using pi_b kb wb by (intro example_half_step; argo)+
  have e3: "rk4_f s (Num (981 / 100)) (Num 0) (Num x3) (Num w3) = (Num w3, Num k3v)"
    unfolding k3v_def using wb by (intro example_field [OF len]) argo+
  have p4: "Num (pi / 4) + Num w3 * Num (1 / 100) = Num x4"
    "Num 0 + Num k3v * Num (1 / 100) = Num w4"
    unfolding x4_def w4_def using pi_b kb wb by (intro example_full_step; argo)+
  have e4: "rk4_f s (Num (981 / 100)) (Num 0) (Num x4) (Num w4) = (Num w4, Num k4v)"
    unfolding k4v_def using wb by (intro example_field [OF len]) argo+
  have c: "Num (pi / 4) + (Num (1 / 100) / Num 6) * (Num 0 + Num 2 * Num w2 + Num 2 * Num w3 + Num w4)
             = Num a"
    "Num 0 + (Num (1 / 100) / Num 6) * (Num k1v + Num 2 * Num k2v + Num 2 * Num k3v + Num k4v)
             = Num w"
    unfolding a_def w_def using pi_b kb wb by (intro example_combine; argo)+
  have "rk4 s (Num (1 / 100)) (Num (981 / 100)) (Num 0) = (Num a, Num w)"
    by (simp only: rk4_def Let_def s e1 prod.case p2 e2 p3 e3 p4 e4 c)
  then show ?thesis using a_lt w_lt by blast
qed


text \<open>The step of the freely turning pendulum.\<close>

lemma fin_zero: "fin 0 = Num 0"
  by (simp add: fin_small)

lemma turning_rk4:
  assumes "- 1000 \<le> a" "a \<le> 1000"
  shows "rk4 \<lparr>angle = Num a, angularVelocity = Num 1, length_field = Num 2, mass = m, trail = tr\<rparr>
           (Num 6) (Num 0) (Num 0) = (Num (a + 6), Num 1)"
  using assms by (simp add: rk4_def rk4_f_def Let_def minus_jsnum_def fin_small)

lemma nonfinite_plus_left: "\<not> is_finite a \<Longrightarrow> \<not> is_finite (a + b)"
  by (cases a; cases b) simp_all

lemma nonfinite_plus_right: "\<not> is_finite b \<Longrightarrow> \<not> is_finite (a + b)"
  by (cases a; cases b) simp_all

lemma nonfinite_uminus: "\<not> is_finite a \<Longrightarrow> \<not> is_finite (- a)"
  by (cases a) simp_all

lemma nonfinite_minus_left: "\<not> is_finite a \<Longrightarrow> \<not> is_finite (a - b)"
  by (simp add: minus_jsnum_def nonfinite_plus_left)

lemma nonfinite_minus_right: "\<not> is_finite b \<Longrightarrow> \<not> is_finite (a - b)"
  by (simp add: minus_jsnum_def nonfinite_plus_right nonfinite_uminus)

lemma nonfinite_times_left: "\<not> is_finite a \<Longrightarrow> \<not> is_finite (a * b)"
  by (cases a; cases b) simp_all

lemma nonfinite_times_right: "\<not> is_finite b \<Longrightarrow> \<not> is_finite (a * b)"
  by (cases a; cases b) simp_all

lemma nonfinite_divide_left: "\<not> is_finite a \<Longrightarrow> \<not> is_finite (a / b)"
  by (cases a; cases b) simp_all

lemma nonfinite_divide_zero: "\<not> is_finite (a / Num 0)"
  by (cases a) simp_all

lemmas nonfinite_intros =
  nonfinite_plus_left nonfinite_plus_right nonfinite_uminus nonfinite_minus_left
  nonfinite_minus_right nonfinite_times_left nonfinite_times_right nonfinite_divide_left

lemma rk4_f_nonfinite:
  assumes "length_field s = Num 0 \<or> \<not> is_finite g \<or> \<not> is_finite d"
  shows "\<not> is_finite (snd (rk4_f s g d theta omega))"
proof -
  consider "\<not> is_finite (- g / length_field s)" | "\<not> is_finite d"
    using assms nonfinite_divide_zero [of "- g"] nonfinite_divide_left [OF nonfinite_uminus, of g]
    by auto
  then show ?thesis
    by cases (simp_all add: rk4_f_def nonfinite_intros)
qed

lemma rk4_nonfinite:
  assumes "\<not> is_finite (snd (rk4_f s g d (angle s) (angularVelocity s)))"
  shows "\<not> is_finite (fst (rk4 s dt g d)) \<and> \<not> is_finite (snd (rk4 s dt g d))"
proof -
  have f1: "fst (rk4_f s g d a b) = b" for a b by (simp add: rk4_f_def)
  show ?thesis
    unfolding rk4_def Let_def split_def fst_conv snd_conv f1
    by (intro conjI nonfinite_plus_right nonfinite_times_right nonfinite_plus_left
        nonfinite_divide_left nonfinite_times_left assms)
qed


lemma last_last_n_snoc: "0 < n \<Longrightarrow> last_n n (xs @ [p]) \<noteq> [] \<and> last (last_n n (xs @ [p])) = p"
  by (simp add: last_n_def)

lemma bobPosition_nonfinite:
  "\<not> is_finite a \<Longrightarrow> bobPosition a len = \<lparr>pt_x = NaN, pt_y = NaN\<rparr>"
  by (cases a) (simp_all add: bobPosition_def)


lemma shift_loop_store_frame:
  "objects (shift_loop_store h a) = objects h \<and>
   next_ref (shift_loop_store h a) = next_ref h \<and>
   (\<forall>b. b \<noteq> a \<longrightarrow> arrays (shift_loop_store h a) b = arrays h b) \<and>
   array_contents (shift_loop_store h a) a = shift_loop (array_contents h a)"
proof (induction h a rule: shift_loop_store.induct)
  case (1 h a)
  show ?case
  proof (cases "array_length h a > 50")
    case True
    then have unf: "shift_loop_store h a = shift_loop_store (array_shift h a) a"
      by (subst shift_loop_store.simps) simp
    have sl: "shift_loop (array_contents h a) = shift_loop (tl (array_contents h a))"
      using True by (subst shift_loop.simps) (simp add: array_length_def)
    have c: "array_contents (array_shift h a) a = tl (array_contents h a)"
      by (simp add: array_shift_def array_contents_def)
    show ?thesis unfolding unf sl using "1" [OF True] c
      by (simp add: array_shift_def)
  next
    case False
    then have unf: "shift_loop_store h a = h"
      by (subst shift_loop_store.simps) simp
    have "shift_loop (array_contents h a) = array_contents h a"
      using False by (subst shift_loop.simps) (simp add: array_length_def)
    then show ?thesis unfolding unf by simp
  qed
qed



section \<open>The integrator is the classical Runge-Kutta step\<close>

text \<open>
  C1 (as amended). For every input, \<open>rk4\<close> returns the classical fourth-order Runge-Kutta
  step of the specification for the system
  \<open>d\<theta>/dt = \<omega>\<close>, \<open>d\<omega>/dt = -(gravity/length) sin \<theta> - dampingCoefficient \<omega>\<close>,
  evaluated in the arithmetic of the code: the stages \<open>k1\<close> to \<open>k4\<close> at \<open>(\<theta>, \<omega>)\<close>,
  \<open>(\<theta> + k1 dt/2, \<omega> + k1v dt/2)\<close>, \<open>(\<theta> + k2 dt/2, \<omega> + k2v dt/2)\<close> and
  \<open>(\<theta> + k3 dt, \<omega> + k3v dt)\<close>, and the sum \<open>k1 + 2 k2 + 2 k3 + k4\<close> weighted by
  \<open>dt/6\<close>, every operation being the operation of the code on numbers.
\<close>

theorem rk4_is_classical_step:
  "rk4 s dt g d =
     spec_rk4_step (spec_pendulum_ode g (length_field s) d) dt (angle s, angularVelocity s)"
  by (simp add: rk4_def rk4_f_def spec_rk4_step_def spec_pendulum_ode_def jvadd_def jvscale_def
      jvtimes_def jvdivide_def Let_def uminus_divide_jsnum)

text \<open>Two instances. With damping 1 and no gravity every result is a small integer: from
  angular velocity 8 a step of 3 gives \<open>8 (1 - 3 + 9/2 - 27/6 + 81/24) = 11\<close>. With
  gravity 9.81 and length 2, the step of 0.01 from rest at \<open>\<pi>/4\<close> lowers the angle and
  makes the angular velocity negative.\<close>

theorem rk4_is_classical_step_witness:
  "rk4 \<lparr>angle = Num 0, angularVelocity = Num 8, length_field = Num 2, mass = Num 1,
        trail = []\<rparr> (Num 3) (Num 0) (Num 1) = (Num (- 3), Num 11) \<and>
   (\<exists>a w. spec_rk4_step (spec_pendulum_ode (Num (981 / 100)) (Num 2) (Num 0)) (Num (1 / 100))
             (Num (pi / 4), Num 0) = (Num a, Num w) \<and> a < pi / 4 \<and> w < 0)"
proof -
  let ?s = "\<lparr>angle = Num 0, angularVelocity = Num 8, length_field = Num 2, mass = Num 1,
             trail = []\<rparr>"
  let ?s' = "\<lparr>angle = Num (pi / 4), angularVelocity = Num 0, length_field = Num 2,
              mass = Num 1, trail = []\<rparr>"
  have "rk4 ?s (Num 3) (Num 0) (Num 1) = (Num (- 3), Num 11)"
    using rk4_is_classical_step [of ?s "Num 3" "Num 0" "Num 1"]
    by (simp add: spec_rk4_step_def spec_pendulum_ode_def jvadd_def jvscale_def jvtimes_def
        jvdivide_def Let_def minus_jsnum_def fin_small)
  moreover have "\<exists>a w. rk4 ?s' (Num (1 / 100)) (Num (981 / 100)) (Num 0) = (Num a, Num w) \<and>
                   a < pi / 4 \<and> w < 0"
    by (rule example_rk4) simp_all
  then have "\<exists>a w. spec_rk4_step (spec_pendulum_ode (Num (981 / 100)) (Num 2) (Num 0))
               (Num (1 / 100)) (Num (pi / 4), Num 0) = (Num a, Num w) \<and> a < pi / 4 \<and> w < 0"
    using rk4_is_classical_step [of ?s' "Num (1 / 100)" "Num (981 / 100)" "Num 0"] by simp
  ultimately show ?thesis by blast
qed

text \<open>The claim as stated fails: with angle 0, angular velocity \<open>2 ^ 1023\<close>, length 2,
  \<open>dt = 4\<close>, no gravity and no damping, the step over the reals is
  \<open>(2 ^ 1025, 2 ^ 1023)\<close>, but \<open>k1t * dt\<close> overflows and \<open>rk4\<close> returns NaN for both
  components.\<close>

theorem rk4_overflow_counterexample:
  "rk4 \<lparr>angle = Num 0, angularVelocity = Num (2 ^ 1023), length_field = Num 2, mass = Num 1,
        trail = []\<rparr> (Num 4) (Num 0) (Num 0) = (NaN, NaN) \<and>
   real_rk4_step (real_pendulum_ode 0 2 0) 4 (0, 2 ^ 1023) = (2 ^ 1025, 2 ^ 1023)"
  by (simp add: rk4_def rk4_f_def Let_def minus_jsnum_def fin_def double_limit_def
      real_rk4_step_def real_pendulum_ode_def vadd_def vscale_def)

section \<open>A frame while running\<close>

text \<open>
  C2. A frame handled while \<open>isRunning\<close> is true runs the integrator on the current
  state with the frame's \<open>deltaTime\<close>, the controls' gravity and \<open>damping / 100\<close>, and
  stores its result as the new angle and angular velocity. The bob's position is
  computed from the new angle and the length. With \<open>showTrail\<close> it is appended to the
  trail, which is then cut to its last 50 points; without \<open>showTrail\<close> the trail stays
  as it was.
\<close>

theorem running_frame_update:
  assumes "isRunning (controls sim)"
  shows "state (handleFrame deltaTime sim) =
     (let prev = state sim; c = controls sim;
          r = rk4 prev deltaTime (gravity c) (damping c / Num 100);
          p = bobPosition (fst r) (length_field prev)
      in prev\<lparr>angle := fst r, angularVelocity := snd r,
              trail := (if showTrail c then last_n 50 (trail prev @ [p]) else trail prev)\<rparr>)"
  using assms by (simp add: handleFrame_def updater_fields Let_def)

theorem running_frame_update_witness:
  "isRunning (controls (turningSimulator [\<lparr>pt_x = Num 300, pt_y = Num 425\<rparr>] True)) \<and>
   state (handleFrame (Num 6) (turningSimulator [\<lparr>pt_x = Num 300, pt_y = Num 425\<rparr>] True)) =
     \<lparr>angle = Num 6, angularVelocity = Num 1, length_field = Num 2, mass = Num 1,
      trail = [\<lparr>pt_x = Num 300, pt_y = Num 425\<rparr>, bobPosition (Num 6) (Num 2)]\<rparr> \<and>
   isRunning (controls (turningSimulator [\<lparr>pt_x = Num 300, pt_y = Num 425\<rparr>] False)) \<and>
   state (handleFrame (Num 6) (turningSimulator [\<lparr>pt_x = Num 300, pt_y = Num 425\<rparr>] False)) =
     \<lparr>angle = Num 6, angularVelocity = Num 1, length_field = Num 2, mass = Num 1,
      trail = [\<lparr>pt_x = Num 300, pt_y = Num 425\<rparr>]\<rparr>"
  using running_frame_update [of "turningSimulator [\<lparr>pt_x = Num 300, pt_y = Num 425\<rparr>] True" "Num 6"]
    running_frame_update [of "turningSimulator [\<lparr>pt_x = Num 300, pt_y = Num 425\<rparr>] False" "Num 6"]
  by (simp add: turningSimulator_def turningState_def freeControls_def fin_zero turning_rk4
      last_n_def Let_def)

section \<open>The trail is bounded and first-in, first-out\<close>

text \<open>
  C6. From a state whose trail has at most 50 points, after any sequence of frames that
  are all handled with \<open>showTrail\<close> true, the trail has at most 50 points, and it is the
  last 50 (or fewer) of the initial trail followed by the appended points in the order
  of their frames: the oldest points are dropped first.
\<close>

theorem trail_bound_fifo:
  assumes "length (trail (state sim)) \<le> 50" and "\<forall>t \<in> set ticks. showTrail (fst t)"
  shows "length (trail (state (run_frames ticks sim))) \<le> 50 \<and>
         trail (state (run_frames ticks sim)) =
           last_n 50 (trail (state sim) @ appended_points ticks sim)"
  using assms
proof (induction ticks arbitrary: sim)
  case Nil
  then show ?case by (simp add: last_n_id)
next
  case (Cons t ticks)
  obtain c deltaTime where t: "t = (c, deltaTime)" by (cases t)
  let ?sim' = "handleFrame deltaTime (sim\<lparr>controls := c\<rparr>)"
  have sh: "showTrail c" using Cons.prems t by simp
  have step: "trail (state ?sim') =
                last_n 50 (trail (state sim) @ appended_points [(c, deltaTime)] sim)"
    using sh Cons.prems(1) by (simp add: handleFrame_def updater_fields last_n_id)
  then have len: "length (trail (state ?sim')) \<le> 50" by (simp add: last_n_length)
  have rest: "\<forall>t \<in> set ticks. showTrail (fst t)" using Cons.prems by simp
  have IH: "length (trail (state (run_frames ticks ?sim'))) \<le> 50 \<and>
         trail (state (run_frames ticks ?sim')) =
           last_n 50 (trail (state ?sim') @ appended_points ticks ?sim')"
    using Cons.IH [OF len rest] .
  have ap: "appended_points (t # ticks) sim =
              appended_points [(c, deltaTime)] sim @ appended_points ticks ?sim'"
    unfolding t by simp
  have eq: "last_n 50 (trail (state ?sim') @ appended_points ticks ?sim')
        = last_n 50 (trail (state sim) @ appended_points (t # ticks) sim)"
    unfolding step last_n_append ap by simp
  have run_eq: "run_frames (t # ticks) sim = run_frames ticks ?sim'"
    unfolding t by simp
  show ?case unfolding run_eq eq [symmetric] by (rule IH)
qed

theorem trail_bound_fifo_witness:
  "length (trail (state (turningSimulator fiftyPoints True))) \<le> 50 \<and>
   showTrail (fst (freeControls True, Num 6)) \<and>
   length (trail (state (run_frames [(freeControls True, Num 6), (freeControls True, Num 6)]
     (turningSimulator fiftyPoints True)))) \<le> 50 \<and>
   trail (state (run_frames [(freeControls True, Num 6), (freeControls True, Num 6)]
     (turningSimulator fiftyPoints True))) =
     map (\<lambda>i. \<lparr>pt_x = Num (real i), pt_y = Num 0\<rparr>) [2..<50] @
       [bobPosition (Num 6) (Num 2), bobPosition (Num 12) (Num 2)]"
proof -
  let ?ticks = "[(freeControls True, Num 6), (freeControls True, Num 6)]"
  let ?sim = "turningSimulator fiftyPoints True"
  have len: "length (trail (state ?sim)) \<le> 50"
    by (simp add: turningSimulator_def turningState_def fiftyPoints_def)
  have sh: "\<forall>t \<in> set ?ticks. showTrail (fst t)"
    by (simp add: freeControls_def)
  have ap: "appended_points ?ticks ?sim = [bobPosition (Num 6) (Num 2), bobPosition (Num 12) (Num 2)]"
    by (simp add: turningSimulator_def turningState_def freeControls_def fin_zero
        turning_rk4 handleFrame_def updater_fields)
  have l: "length fiftyPoints = 50"
    by (simp add: fiftyPoints_def)
  have d2: "drop 2 fiftyPoints = map (\<lambda>i. \<lparr>pt_x = Num (real i), pt_y = Num 0\<rparr>) [2..<50]"
    unfolding fiftyPoints_def drop_map drop_upt add_0 by (rule refl)
  have cut: "last_n 50 (fiftyPoints @ [bobPosition (Num 6) (Num 2), bobPosition (Num 12) (Num 2)])
      = map (\<lambda>i. \<lparr>pt_x = Num (real i), pt_y = Num 0\<rparr>) [2..<50] @
        [bobPosition (Num 6) (Num 2), bobPosition (Num 12) (Num 2)]"
    unfolding d2 [symmetric] by (simp add: last_n_def l)
  have tr: "trail (state ?sim) = fiftyPoints"
    by (simp add: turningSimulator_def turningState_def)
  show ?thesis
    using len trail_bound_fifo [OF len sh] unfolding ap tr cut
    by (simp add: freeControls_def)
qed

section \<open>Reset\<close>

text \<open>
  C5 (as amended). \<open>resetSimulation\<close> restores the pendulum state to its initial value
  (angle \<open>\<pi>/4\<close>, angular velocity 0, length 2, mass 1, empty trail) whatever it was, and
  sets \<open>isRunning\<close> to true; gravity, damping and \<open>showTrail\<close> keep the values they had
  before the reset.
\<close>

theorem reset_restores_state_and_running:
  "state (resetSimulation now sim) = initialState \<and>
   isRunning (controls (resetSimulation now sim)) \<and>
   gravity (controls (resetSimulation now sim)) = gravity (controls sim) \<and>
   damping (controls (resetSimulation now sim)) = damping (controls sim) \<and>
   showTrail (controls (resetSimulation now sim)) = showTrail (controls sim)"
  by (simp add: resetSimulation_def initialState_def)

text \<open>The claim as stated fails: after the gravity slider was moved to 5, a reset leaves
  gravity at 5, not at 9.81.\<close>

theorem reset_controls_counterexample:
  "gravity (controls (resetSimulation (Num 0)
      (initialSimulator\<lparr>controls := initialControls\<lparr>gravity := Num 5\<rparr>\<rparr>))) = Num 5 \<and>
   controls (resetSimulation (Num 0)
      (initialSimulator\<lparr>controls := initialControls\<lparr>gravity := Num 5\<rparr>\<rparr>)) \<noteq> initialControls"
  by (simp add: resetSimulation_def initialSimulator_def initialControls_def)

section \<open>Pause\<close>

text \<open>
  C7. A frame handled while \<open>isRunning\<close> is false leaves the pendulum state as it was
  (angle, angular velocity, trail and the other fields), for every \<open>deltaTime\<close>: the
  integrator is not run.
\<close>

theorem paused_frame_keeps_state:
  "\<not> isRunning (controls sim) \<Longrightarrow> state (handleFrame deltaTime sim) = state sim"
  by (simp add: handleFrame_def)

theorem paused_frame_keeps_state_witness:
  "\<not> isRunning (controls (initialSimulator\<lparr>controls := initialControls\<lparr>isRunning := False\<rparr>\<rparr>))
   \<and> state (handleFrame (Num 5) (initialSimulator\<lparr>controls := initialControls\<lparr>isRunning := False\<rparr>\<rparr>))
     = initialState"
  using paused_frame_keeps_state
    [of "initialSimulator\<lparr>controls := initialControls\<lparr>isRunning := False\<rparr>\<rparr>" "Num 5"]
  by (simp add: initialSimulator_def)


section \<open>The example of the specification\<close>

text \<open>
  C9. From the initial state (angle \<open>\<pi>/4\<close>, angular velocity 0, length 2, mass 1, any
  trail), with gravity 9.81, damping 0 and \<open>isRunning\<close> true, one frame of
  \<open>deltaTime = 0.01\<close> gives an angular velocity below zero and an angle below \<open>\<pi>/4\<close>
  (no result comes near overflow; rounding is not modelled).
\<close>

theorem example_first_step:
  "\<exists>a w. angle (state (handleFrame (Num (1 / 100))
              (initialSimulator\<lparr>state := initialState\<lparr>trail := tr\<rparr>,
                controls := initialControls\<lparr>damping := Num 0, showTrail := sh\<rparr>\<rparr>)))
            = Num a \<and>
          angularVelocity (state (handleFrame (Num (1 / 100))
              (initialSimulator\<lparr>state := initialState\<lparr>trail := tr\<rparr>,
                controls := initialControls\<lparr>damping := Num 0, showTrail := sh\<rparr>\<rparr>)))
            = Num w \<and>
          a < pi / 4 \<and> w < 0"
proof -
  have "\<exists>a w. rk4 (initialState\<lparr>trail := tr\<rparr>) (Num (1 / 100)) (Num (981 / 100)) (Num 0)
                 = (Num a, Num w) \<and> a < pi / 4 \<and> w < 0"
    by (rule example_rk4) (simp_all add: initialState_def Math_PI_quarter)
  then obtain a w
    where r: "rk4 (initialState\<lparr>trail := tr\<rparr>) (Num (1 / 100)) (Num (981 / 100)) (Num 0)
                = (Num a, Num w)"
      and lt: "a < pi / 4" "w < 0"
    by blast
  have "angle (state (handleFrame (Num (1 / 100))
              (initialSimulator\<lparr>state := initialState\<lparr>trail := tr\<rparr>,
                controls := initialControls\<lparr>damping := Num 0, showTrail := sh\<rparr>\<rparr>)))
            = Num a \<and>
          angularVelocity (state (handleFrame (Num (1 / 100))
              (initialSimulator\<lparr>state := initialState\<lparr>trail := tr\<rparr>,
                controls := initialControls\<lparr>damping := Num 0, showTrail := sh\<rparr>\<rparr>)))
            = Num w"
    using r
    by (simp add: handleFrame_def updater_fields initialSimulator_def initialControls_def
        fin_zero)
  with lt show ?thesis by blast
qed

section \<open>Derived quantities\<close>




section \<open>Invalid parameters\<close>

text \<open>
  C3 (as amended). Called with a length \<open>\<le> 0\<close> or a non-finite gravity or damping value,
  as with every other input, the integrator signals no error: it returns a pair of
  numbers. With length 0, or with a non-finite gravity or damping, both numbers are
  non-finite (the infinity or NaN of the division or of the parameter propagates
  through the step).
\<close>

theorem rk4_signals_no_error:
  "(\<exists>a w. rk4_call s dt g d = Inr (a, w)) \<and>
   (length_field s = Num 0 \<or> \<not> is_finite g \<or> \<not> is_finite d \<longrightarrow>
      (\<exists>a w. rk4_call s dt g d = Inr (a, w) \<and> \<not> is_finite a \<and> \<not> is_finite w))"
proof (intro conjI impI)
  show "\<exists>a w. rk4_call s dt g d = Inr (a, w)"
    by (cases "rk4 s dt g d") (simp add: rk4_call_def)
next
  assume "length_field s = Num 0 \<or> \<not> is_finite g \<or> \<not> is_finite d"
  then have "\<not> is_finite (fst (rk4 s dt g d)) \<and> \<not> is_finite (snd (rk4 s dt g d))"
    by (intro rk4_nonfinite rk4_f_nonfinite)
  then show "\<exists>a w. rk4_call s dt g d = Inr (a, w) \<and> \<not> is_finite a \<and> \<not> is_finite w"
    by (cases "rk4 s dt g d") (simp add: rk4_call_def)
qed

theorem rk4_signals_no_error_witness:
  "length_field (initialState\<lparr>length_field := Num 0\<rparr>) = Num 0 \<and>
   (\<exists>a w. rk4_call (initialState\<lparr>length_field := Num 0\<rparr>) (Num (1 / 100)) (Num (981 / 100))
             (Num (1 / 200)) = Inr (a, w) \<and> \<not> is_finite a \<and> \<not> is_finite w) \<and>
   (\<exists>a w. rk4_call (initialState\<lparr>length_field := Num (- 2)\<rparr>) (Num (1 / 100))
             (Num (981 / 100)) (Num (1 / 200)) = Inr (a, w))"
  using rk4_signals_no_error [of "initialState\<lparr>length_field := Num 0\<rparr>" "Num (1 / 100)"
      "Num (981 / 100)" "Num (1 / 200)"]
    rk4_signals_no_error [of "initialState\<lparr>length_field := Num (- 2)\<rparr>" "Num (1 / 100)"
      "Num (981 / 100)" "Num (1 / 200)"]
  by simp

text \<open>The claim as stated fails: from the initial angle with length 0, \<open>rk4\<close> divides by
  the length and returns NaN for both components, without an error.\<close>

theorem rk4_invalid_length_counterexample:
  "rk4_call \<lparr>angle = Num (pi / 4), angularVelocity = Num 0, length_field = Num 0, mass = Num 1,
             trail = []\<rparr> (Num (1 / 100)) (Num (981 / 100)) (Num (1 / 200)) = Inr (NaN, NaN)"
  by (simp add: rk4_call_def rk4_def rk4_f_def Let_def minus_jsnum_def sin_45 fin_small fin_pi_quarter)

section \<open>Non-finite results\<close>

text \<open>
  C4 (as amended). A frame handled while running makes no check of the integrator's
  result: the computed angle and angular velocity are stored as they are, finite or not.
  With length 0 or a non-finite gravity or damping the stored angle and angular velocity
  are non-finite; and when the computed angle is non-finite and \<open>showTrail\<close> is true, the
  point appended to the trail is \<open>(NaN, NaN)\<close>.
\<close>

theorem frame_stores_unchecked:
  assumes "isRunning (controls sim)"
  shows "let prev = state sim; c = controls sim;
             r = rk4 prev deltaTime (gravity c) (damping c / Num 100);
             new = state (handleFrame deltaTime sim)
         in angle new = fst r \<and> angularVelocity new = snd r \<and>
            (length_field prev = Num 0 \<or> \<not> is_finite (gravity c) \<or> \<not> is_finite (damping c)
               \<longrightarrow> \<not> is_finite (angle new) \<and> \<not> is_finite (angularVelocity new)) \<and>
            (\<not> is_finite (fst r) \<and> showTrail c
               \<longrightarrow> trail new \<noteq> [] \<and> last (trail new) = \<lparr>pt_x = NaN, pt_y = NaN\<rparr>)"
proof -
  let ?c = "controls sim"
  let ?r = "rk4 (state sim) deltaTime (gravity ?c) (damping ?c / Num 100)"
  have st: "state (handleFrame deltaTime sim) = handleFrame_updater ?c deltaTime (state sim)"
    using assms by (simp add: handleFrame_def)
  have a: "angle (state (handleFrame deltaTime sim)) = fst ?r"
    and w: "angularVelocity (state (handleFrame deltaTime sim)) = snd ?r"
    unfolding st updater_fields by simp_all
  have nf: "\<not> is_finite (fst ?r) \<and> \<not> is_finite (snd ?r)"
    if "length_field (state sim) = Num 0 \<or> \<not> is_finite (gravity ?c) \<or> \<not> is_finite (damping ?c)"
    using that nonfinite_divide_left [of "damping ?c" "Num 100"]
    by (intro rk4_nonfinite rk4_f_nonfinite) auto
  have tr: "trail (state (handleFrame deltaTime sim)) \<noteq> [] \<and>
            last (trail (state (handleFrame deltaTime sim))) = \<lparr>pt_x = NaN, pt_y = NaN\<rparr>"
    if "\<not> is_finite (fst ?r)" "showTrail ?c"
    unfolding st updater_fields using that
    by (simp add: last_last_n_snoc bobPosition_nonfinite)
  show ?thesis unfolding Let_def a w using nf tr by blast
qed

theorem frame_stores_unchecked_witness:
  "isRunning (controls (initialSimulator\<lparr>state := initialState\<lparr>length_field := Num 0\<rparr>\<rparr>)) \<and>
   length_field (state (initialSimulator\<lparr>state := initialState\<lparr>length_field := Num 0\<rparr>\<rparr>)) = Num 0 \<and>
   showTrail (controls (initialSimulator\<lparr>state := initialState\<lparr>length_field := Num 0\<rparr>\<rparr>)) \<and>
   \<not> is_finite (angle (state (handleFrame (Num (1 / 100))
        (initialSimulator\<lparr>state := initialState\<lparr>length_field := Num 0\<rparr>\<rparr>)))) \<and>
   last (trail (state (handleFrame (Num (1 / 100))
        (initialSimulator\<lparr>state := initialState\<lparr>length_field := Num 0\<rparr>\<rparr>))))
     = \<lparr>pt_x = NaN, pt_y = NaN\<rparr>"
  using frame_stores_unchecked [of "initialSimulator\<lparr>state := initialState\<lparr>length_field := Num 0\<rparr>\<rparr>"
      "Num (1 / 100)"]
  by (simp add: Let_def initialSimulator_def initialControls_def initialState_def
      Math_PI_quarter rk4_def rk4_f_def minus_jsnum_def sin_45 fin_small fin_pi_quarter)

text \<open>The claim as stated fails: from the initial state with length 0, one frame stores
  NaN as angle and angular velocity and appends the point \<open>(NaN, NaN)\<close>.\<close>

theorem nonfinite_step_counterexample:
  "state (handleFrame (Num (1 / 100))
     (initialSimulator\<lparr>state := initialState\<lparr>length_field := Num 0\<rparr>\<rparr>))
   = \<lparr>angle = NaN, angularVelocity = NaN, length_field = Num 0, mass = Num 1,
      trail = [\<lparr>pt_x = NaN, pt_y = NaN\<rparr>]\<rparr>"
  by (simp add: handleFrame_def updater_fields initialSimulator_def initialControls_def
      initialState_def Math_PI_quarter rk4_def rk4_f_def Let_def minus_jsnum_def sin_45
      bobPosition_def last_n_def fin_small fin_pi_quarter)


section \<open>What a running frame leaves alone\<close>

text \<open>
  C10. A frame handled while running leaves the state's length and mass as they were. On
  the store, the updater returns a newly allocated state object whose trail is a newly
  allocated array: the input state object and its trail array are left as they were, the
  new object has the length and mass of the input, and it holds the state that
  \<open>handleFrame\<close> computes. (The input object and its trail array are allocated, that is,
  below \<open>next_ref\<close>, and hold the component's current state.)
\<close>

theorem frame_keeps_length_mass_and_input:
  assumes run: "isRunning (controls sim)"
    and ob: "objects h prev = Some ob"
    and alloc: "prev < next_ref h" "obj_trail ob < next_ref h"
    and view: "state_view h ob = state sim"
  shows "length_field (state (handleFrame deltaTime sim)) = length_field (state sim) \<and>
         mass (state (handleFrame deltaTime sim)) = mass (state sim) \<and>
         (\<exists>new h' ob'.
            handleFrame_updater_store (controls sim) deltaTime h prev = Some (new, h') \<and>
            new \<noteq> prev \<and> objects h' prev = Some ob \<and>
            arrays h' (obj_trail ob) = arrays h (obj_trail ob) \<and>
            objects h' new = Some ob' \<and> obj_trail ob' \<noteq> obj_trail ob \<and>
            obj_length ob' = obj_length ob \<and> obj_mass ob' = obj_mass ob \<and>
            state_view h' ob' = state (handleFrame deltaTime sim))"
proof -
  let ?c = "controls sim"
  let ?r = "rk4 (state sim) deltaTime (gravity ?c) (damping ?c / Num 100)"
  let ?p = "bobPosition (fst ?r) (length_field (state sim))"
  let ?a = "next_ref h"
  define h1 where "h1 = snd (array_spread h (obj_trail ob))"
  define h2 where "h2 = (if showTrail ?c then shift_loop_store (array_push h1 ?a ?p) ?a else h1)"
  define ob' where "ob' = ob\<lparr>obj_angle := fst ?r, obj_angularVelocity := snd ?r, obj_trail := ?a\<rparr>"
  define h' where "h' = snd (object_new h2 ob')"
  have len: "obj_length ob = length_field (state sim)"
    using view [symmetric] by (simp add: state_view_def)
  have tr: "array_contents h (obj_trail ob) = trail (state sim)"
    using view [symmetric] by (simp add: state_view_def)
  have h1: "objects h1 = objects h" "next_ref h1 = Suc ?a"
    "arrays h1 = (arrays h)(?a \<mapsto> trail (state sim))"
    by (simp_all add: h1_def array_spread_def tr)
  have h2: "objects h2 = objects h \<and> next_ref h2 = Suc ?a \<and>
            (\<forall>b. b \<noteq> ?a \<longrightarrow> arrays h2 b = arrays h b) \<and>
            array_contents h2 ?a =
              (if showTrail ?c then last_n 50 (trail (state sim) @ [?p]) else trail (state sim))"
  proof (cases "showTrail ?c")
    case True
    let ?hp = "array_push h1 ?a ?p"
    have eq: "h2 = shift_loop_store ?hp ?a" using True by (simp add: h2_def)
    have pc: "array_contents ?hp ?a = trail (state sim) @ [?p]"
      by (simp add: array_push_def array_contents_def h1)
    have po: "objects ?hp = objects h" and pn: "next_ref ?hp = Suc ?a"
      by (simp_all add: array_push_def h1)
    have pa: "arrays ?hp b = arrays h b" if "b \<noteq> ?a" for b
      using that by (simp add: array_push_def h1)
    have fr: "objects h2 = objects ?hp \<and> next_ref h2 = next_ref ?hp \<and>
              (\<forall>b. b \<noteq> ?a \<longrightarrow> arrays h2 b = arrays ?hp b) \<and>
              array_contents h2 ?a = shift_loop (array_contents ?hp ?a)"
      unfolding eq by (rule shift_loop_store_frame)
    show ?thesis
      using fr True unfolding pc po pn shift_loop_last_n by (auto simp: pa)
  next
    case False
    then show ?thesis using h1 by (simp add: h2_def array_contents_def)
  qed
  have "handleFrame_updater_store ?c deltaTime h prev = Some (object_new h2 ob')"
    by (simp add: handleFrame_updater_store_def ob view Let_def split_def array_spread_def
        h2_def h1_def ob'_def bobPosition_def len)
  moreover have "object_new h2 ob' = (Suc ?a, h')"
    using h2 by (simp add: object_new_def h'_def)
  ultimately have upd: "handleFrame_updater_store ?c deltaTime h prev = Some (Suc ?a, h')"
    by simp
  have h': "objects h' = (objects h)(Suc ?a \<mapsto> ob')" "arrays h' = arrays h2"
    using h2 by (simp_all add: h'_def object_new_def)
  have res: "state (handleFrame deltaTime sim) =
       (state sim)\<lparr>angle := fst ?r, angularVelocity := snd ?r,
         trail := (if showTrail ?c then last_n 50 (trail (state sim) @ [?p])
                   else trail (state sim))\<rparr>"
    using run by (simp add: handleFrame_def updater_fields)
  have v: "state_view h' ob' = state (handleFrame deltaTime sim)"
    unfolding res using h2 h' view [symmetric]
    by (simp add: state_view_def ob'_def array_contents_def)
  have "Suc ?a \<noteq> prev" using alloc by simp
  moreover have "objects h' prev = Some ob" using alloc ob h' by simp
  moreover have "arrays h' (obj_trail ob) = arrays h (obj_trail ob)"
    using alloc h2 h' by simp
  moreover have "objects h' (Suc ?a) = Some ob'" using h' by simp
  moreover have "obj_trail ob' \<noteq> obj_trail ob" using alloc by (simp add: ob'_def)
  moreover have "obj_length ob' = obj_length ob \<and> obj_mass ob' = obj_mass ob"
    by (simp add: ob'_def)
  ultimately have "\<exists>new h' ob'.
            handleFrame_updater_store (controls sim) deltaTime h prev = Some (new, h') \<and>
            new \<noteq> prev \<and> objects h' prev = Some ob \<and>
            arrays h' (obj_trail ob) = arrays h (obj_trail ob) \<and>
            objects h' new = Some ob' \<and> obj_trail ob' \<noteq> obj_trail ob \<and>
            obj_length ob' = obj_length ob \<and> obj_mass ob' = obj_mass ob \<and>
            state_view h' ob' = state (handleFrame deltaTime sim)"
    using upd v by blast
  then show ?thesis unfolding res by simp
qed


theorem frame_keeps_length_mass_and_input_witness:
  "isRunning (controls initialSimulator) \<and>
   objects initialStore 0 = Some initialObject \<and>
   0 < next_ref initialStore \<and> obj_trail initialObject < next_ref initialStore \<and>
   state_view initialStore initialObject = state initialSimulator \<and>
   length_field (state (handleFrame (Num 0) initialSimulator)) = Num 2 \<and>
   mass (state (handleFrame (Num 0) initialSimulator)) = Num 1 \<and>
   (\<exists>new h' ob'.
      handleFrame_updater_store (controls initialSimulator) (Num 0) initialStore 0
        = Some (new, h') \<and>
      new \<noteq> 0 \<and> objects h' 0 = Some initialObject \<and>
      arrays h' (obj_trail initialObject) = arrays initialStore (obj_trail initialObject) \<and>
      objects h' new = Some ob' \<and> obj_trail ob' \<noteq> obj_trail initialObject \<and>
      obj_length ob' = obj_length initialObject \<and> obj_mass ob' = obj_mass initialObject \<and>
      state_view h' ob' = state (handleFrame (Num 0) initialSimulator))"
proof -
  have hyps: "isRunning (controls initialSimulator)"
    "objects initialStore 0 = Some initialObject"
    "0 < next_ref initialStore" "obj_trail initialObject < next_ref initialStore"
    "state_view initialStore initialObject = state initialSimulator"
    by (simp_all add: initialSimulator_def initialControls_def initialStore_def
        initialObject_def initialState_def state_view_def array_contents_def)
  have vals: "length_field (state initialSimulator) = Num 2"
    "mass (state initialSimulator) = Num 1"
    by (simp_all add: initialSimulator_def initialState_def)
  show ?thesis
    using hyps frame_keeps_length_mass_and_input [OF hyps, of "Num 0"]
    unfolding vals by blast
qed



end
